theory Spec2Isabelle
  imports Main "HOL-Library.Multiset"
begin

section \<open>Tables, files and errors\<close>

text \<open>
  The script \<^verbatim>\<open>build_manifest.py\<close> reads the tab-separated file \<^verbatim>\<open>manifest.tsv\<close>
  into a data frame, selects the forward and the reverse rows, renames their path column,
  joins the two selections on \<^verbatim>\<open>sample-id\<close> and writes the result to
  \<^verbatim>\<open>manifest_v2.tsv\<close>.

  A cell is a value as the table library holds it after reading: text, a number, or the
  missing value. A frame has its column labels and its rows, every row listing one cell
  per column. A delimited text file is represented by the table it holds under the tab
  separator, which is the separator the script reads with; how the library tokenises a
  line, quotes a field or infers the type of a column is not part of the model. The
  world of a run is the files by path and the lines printed so far.

  The script names no version of the table library, and the join changed with version
  2.2 of it, in the order of the rows and, for a left frame without rows, in the order of
  the columns. The version is a parameter of the join and of the run.
\<close>

datatype cell = Str string | Num int | NaN

record frame =
  columns :: "string list"
  rows :: "cell list list"

datatype error =
    FileNotFoundError string
  | EmptyDataError
  | KeyError "string list"
  | ValueError

datatype pandas = Before_2_2 | From_2_2

record world =
  files :: "string \<rightharpoonup> frame"
  stdout :: "string list"

section \<open>The table operations the script calls\<close>

text \<open>Position of a label among the columns; the first one when a label is repeated.\<close>

fun get_loc :: "string list \<Rightarrow> string \<Rightarrow> nat option" where
  "get_loc [] c = None"
| "get_loc (x # xs) c = (if x = c then Some 0 else map_option Suc (get_loc xs c))"

text \<open>
  The cell of a row at a position. Frames are rectangular, so the position is always
  inside the row on a table that was read from a file; a row that is too short reads as
  the missing value, which is how the reader fills a short line.
\<close>

definition cell_at :: "cell list \<Rightarrow> nat \<Rightarrow> cell" where
  "cell_at r i = (if i < length r then r ! i else NaN)"

text \<open>The value a row holds under a column label.\<close>

definition at_col :: "frame \<Rightarrow> string \<Rightarrow> cell list \<Rightarrow> cell" where
  "at_col df c r = (case get_loc (columns df) c of None \<Rightarrow> NaN | Some i \<Rightarrow> cell_at r i)"

text \<open>\<^verbatim>\<open>pd.read_csv(path, sep="\t")\<close>: the table the file holds under the tab separator;
  fails when the file does not exist or has no header.\<close>

definition read_csv :: "world \<Rightarrow> string \<Rightarrow> error + frame" where
  "read_csv w path =
     (case files w path of
        None \<Rightarrow> Inl (FileNotFoundError path)
      | Some t \<Rightarrow> if columns t = [] then Inl EmptyDataError else Inr t)"

text \<open>\<^verbatim>\<open>df[c]\<close>: one column as a series; a label that is not a column is a key error.\<close>

definition getitem_col :: "frame \<Rightarrow> string \<Rightarrow> error + cell list" where
  "getitem_col df c =
     (case get_loc (columns df) c of
        None \<Rightarrow> Inl (KeyError [c])
      | Some i \<Rightarrow> Inr (map (\<lambda>r. cell_at r i) (rows df)))"

text \<open>\<^verbatim>\<open>series == value\<close>: the elementwise comparison, a boolean mask.\<close>

definition eq_scalar :: "cell list \<Rightarrow> cell \<Rightarrow> bool list" where
  "eq_scalar s v = map (\<lambda>x. x = v) s"

text \<open>\<^verbatim>\<open>df[mask]\<close>: the rows whose mask entry is true, in their order.\<close>

definition getitem_mask :: "frame \<Rightarrow> bool list \<Rightarrow> frame" where
  "getitem_mask df bs = df\<lparr>rows := map snd (filter fst (zip bs (rows df)))\<rparr>"

text \<open>\<^verbatim>\<open>df[[c1, c2, ...]]\<close>: the listed columns in the listed order; the labels that are
  not columns are reported in a key error.\<close>

definition getitem_cols :: "frame \<Rightarrow> string list \<Rightarrow> error + frame" where
  "getitem_cols df cs =
     (let missing = filter (\<lambda>c. get_loc (columns df) c = None) cs
      in if missing \<noteq> [] then Inl (KeyError missing)
         else Inr \<lparr>columns = cs, rows = map (\<lambda>r. map (\<lambda>c. at_col df c r) cs) (rows df)\<rparr>)"

text \<open>\<^verbatim>\<open>df.columns = [...]\<close>: relabels the columns; the number of labels must fit.\<close>

definition set_columns :: "frame \<Rightarrow> string list \<Rightarrow> error + frame" where
  "set_columns df cs =
     (if length cs \<noteq> length (columns df) then Inl ValueError else Inr (df\<lparr>columns := cs\<rparr>))"

text \<open>
  \<^verbatim>\<open>pd.merge(left, right, on=key)\<close>: the inner join, which is the default. Every left
  row is paired with every right row that has the same key; equal keys include two
  missing keys. A joined row is the left row followed by the right row without its key.
\<close>

definition drop_at :: "nat \<Rightarrow> 'a list \<Rightarrow> 'a list" where
  "drop_at j xs = take j xs @ drop (Suc j) xs"

definition join_rows :: "nat \<Rightarrow> nat \<Rightarrow> cell list list \<Rightarrow> cell list list \<Rightarrow> cell list list" where
  "join_rows i j ls rs =
     concat (map (\<lambda>l. map (\<lambda>r. l @ drop_at j r) (filter (\<lambda>r. cell_at r j = cell_at l i) rs)) ls)"

text \<open>
  From version 2.2 the joined rows follow the order of the left rows. Before, the rows
  come grouped by key: the keys in the order in which the left frame first shows them,
  the missing key last, and within a key the left rows in their order.
\<close>

definition group_order :: "cell list \<Rightarrow> cell list" where
  "group_order ks = rev (remdups (rev (filter (\<lambda>k. k \<noteq> NaN) ks))) @ [NaN]"

definition merged_rows ::
  "pandas \<Rightarrow> nat \<Rightarrow> nat \<Rightarrow> cell list list \<Rightarrow> cell list list \<Rightarrow> cell list list" where
  "merged_rows v i j ls rs =
     (case v of
        From_2_2 \<Rightarrow> join_rows i j ls rs
      | Before_2_2 \<Rightarrow>
          concat (map (\<lambda>k. join_rows i j (filter (\<lambda>l. cell_at l i = k) ls) rs)
                    (group_order (map (\<lambda>l. cell_at l i) ls))))"

text \<open>
  The result has the left columns and then the right columns without the key. Before
  version 2.2 a left frame without rows loses its key column instead, so that the result
  has the other left columns and then all right columns. A label other than the key that
  both sides have gets the suffix \<^verbatim>\<open>_x\<close> on the left and \<^verbatim>\<open>_y\<close> on the right.
\<close>

definition merged_columns :: "pandas \<Rightarrow> string \<Rightarrow> nat \<Rightarrow> nat \<Rightarrow> frame \<Rightarrow> frame \<Rightarrow> string list" where
  "merged_columns v key i j left right =
     (if v = Before_2_2 \<and> rows left = []
      then map (\<lambda>c. if c \<in> set (columns right) then c @ ''_x'' else c) (drop_at i (columns left))
           @ map (\<lambda>c. if c \<noteq> key \<and> c \<in> set (columns left) then c @ ''_y'' else c)
               (columns right)
      else map (\<lambda>c. if c \<noteq> key \<and> c \<in> set (columns right) then c @ ''_x'' else c)
             (columns left)
           @ map (\<lambda>c. if c \<in> set (columns left) then c @ ''_y'' else c)
               (drop_at j (columns right)))"

definition merge :: "pandas \<Rightarrow> frame \<Rightarrow> frame \<Rightarrow> string \<Rightarrow> error + frame" where
  "merge v left right key =
     (case get_loc (columns left) key of
        None \<Rightarrow> Inl (KeyError [key])
      | Some i \<Rightarrow>
         (case get_loc (columns right) key of
            None \<Rightarrow> Inl (KeyError [key])
          | Some j \<Rightarrow>
             Inr \<lparr>columns = merged_columns v key i j left right,
                  rows = merged_rows v i j (rows left) (rows right)\<rparr>))"

text \<open>
  \<^verbatim>\<open>df.to_csv(path, sep=..., index=...)\<close> creates or overwrites the file with a header
  line and one line for every row, the fields of a line joined by the separator. With
  \<^verbatim>\<open>index=True\<close> every line starts with one more field, empty in the header and the
  label of the row elsewhere. Row labels are not part of a frame here; the labels written
  are the positions 0, 1, ..., which are the labels of a frame as the join returns it.
\<close>

definition with_index :: "frame \<Rightarrow> frame" where
  "with_index df =
     \<lparr>columns = [] # columns df,
      rows = map (\<lambda>(n, r). Num (int n) # r) (enumerate 0 (rows df))\<rparr>"

text \<open>
  Written with the tab, the file holds under the tab separator the table that was
  written. Written with another separator it holds one column, every line being one
  field (for labels and cells free of tabs and quotes): numbers show in decimal and the
  missing value as the empty text.
\<close>

definition tab :: char where
  "tab = CHR 0x09"

fun digits :: "nat \<Rightarrow> string" where
  "digits n = (if n < 10 then [char_of (48 + n)] else digits (n div 10) @ [char_of (48 + n mod 10)])"

fun show_cell :: "cell \<Rightarrow> string" where
  "show_cell (Str s) = s"
| "show_cell (Num z) = (if z < 0 then CHR ''-'' # digits (nat (- z)) else digits (nat z))"
| "show_cell NaN = []"

fun join_fields :: "char \<Rightarrow> string list \<Rightarrow> string" where
  "join_fields sep [] = []"
| "join_fields sep [x] = x"
| "join_fields sep (x # y # ys) = x @ sep # join_fields sep (y # ys)"

definition one_column :: "char \<Rightarrow> frame \<Rightarrow> frame" where
  "one_column sep t =
     \<lparr>columns = [join_fields sep (columns t)],
      rows = map (\<lambda>r. [Str (join_fields sep (map show_cell r))]) (rows t)\<rparr>"

definition to_csv :: "frame \<Rightarrow> string \<Rightarrow> char \<Rightarrow> bool \<Rightarrow> world \<Rightarrow> world" where
  "to_csv df path sep index w =
     (let t = (if index then with_index df else df)
      in w\<lparr>files := (files w)(path \<mapsto> (if sep = tab then t else one_column sep t))\<rparr>)"

text \<open>\<^verbatim>\<open>print(s)\<close>: one more line on the standard output.\<close>

definition print :: "string \<Rightarrow> world \<Rightarrow> world" where
  "print s w = w\<lparr>stdout := stdout w @ [s]\<rparr>"

section \<open>The script\<close>

definition fwd :: "frame \<Rightarrow> error + frame" where
  "fwd df =
     (case getitem_col df ''direction'' of
        Inl e \<Rightarrow> Inl e
      | Inr d \<Rightarrow>
         (case getitem_cols (getitem_mask df (eq_scalar d (Str ''forward'')))
                 [''sample-id'', ''absolute-filepath''] of
            Inl e \<Rightarrow> Inl e
          | Inr f \<Rightarrow> set_columns f [''sample-id'', ''forward-absolute-filepath'']))"

definition rev_frame :: "frame \<Rightarrow> error + frame" where
  "rev_frame df =
     (case getitem_col df ''direction'' of
        Inl e \<Rightarrow> Inl e
      | Inr d \<Rightarrow>
         (case getitem_cols (getitem_mask df (eq_scalar d (Str ''reverse'')))
                 [''sample-id'', ''absolute-filepath''] of
            Inl e \<Rightarrow> Inl e
          | Inr f \<Rightarrow> set_columns f [''sample-id'', ''reverse-absolute-filepath'']))"

definition manifest_v2 :: "pandas \<Rightarrow> frame \<Rightarrow> error + frame" where
  "manifest_v2 v df =
     (case fwd df of
        Inl e \<Rightarrow> Inl e
      | Inr f \<Rightarrow>
         (case rev_frame df of
            Inl e \<Rightarrow> Inl e
          | Inr r \<Rightarrow> merge v f r ''sample-id''))"

text \<open>A run from a world, with a version of the library: the error that aborted it, if
  any, and the world it leaves.\<close>

definition main :: "pandas \<Rightarrow> world \<Rightarrow> error option \<times> world" where
  "main v w =
     (case read_csv w ''manifest.tsv'' of
        Inl e \<Rightarrow> (Some e, w)
      | Inr df \<Rightarrow>
         (case manifest_v2 v df of
            Inl e \<Rightarrow> (Some e, w)
          | Inr m \<Rightarrow>
             (None, print ''manifest_v2.tsv created successfully''
                      (to_csv m ''manifest_v2.tsv'' tab False w))))"

section \<open>Vocabulary of the properties\<close>

text \<open>The three columns the script looks up in the table it has read.\<close>

definition required_columns :: "string list" where
  "required_columns = [''sample-id'', ''direction'', ''absolute-filepath'']"

definition has_required_columns :: "frame \<Rightarrow> bool" where
  "has_required_columns df = (set required_columns \<subseteq> set (columns df))"

text \<open>The rows of a table with a given sample identifier and a given direction, and
  how many there are.\<close>

definition rows_of :: "frame \<Rightarrow> cell \<Rightarrow> string \<Rightarrow> cell list list" where
  "rows_of df s d =
     filter (\<lambda>r. at_col df ''sample-id'' r = s \<and> at_col df ''direction'' r = Str d) (rows df)"

definition count_rows :: "frame \<Rightarrow> cell \<Rightarrow> string \<Rightarrow> nat" where
  "count_rows df s d = length (rows_of df s d)"

text \<open>The sample identifiers that occur in a table, each once.\<close>

definition sample_ids :: "frame \<Rightarrow> cell set" where
  "sample_ids df = set (map (at_col df ''sample-id'') (rows df))"

text \<open>The header of the table the script writes.\<close>

definition wide_columns :: "string list" where
  "wide_columns = [''sample-id'', ''forward-absolute-filepath'', ''reverse-absolute-filepath'']"

text \<open>
  The header and the rows of the join written out. The joined rows are one row for every
  forward row and every reverse row of the same sample identifier.
\<close>

definition has_forward_row :: "frame \<Rightarrow> bool" where
  "has_forward_row df = (\<exists>r \<in> set (rows df). at_col df ''direction'' r = Str ''forward'')"

definition legacy_columns :: "string list" where
  "legacy_columns = [''forward-absolute-filepath'', ''sample-id'', ''reverse-absolute-filepath'']"

definition selected :: "frame \<Rightarrow> string \<Rightarrow> cell list list" where
  "selected df d =
     map (\<lambda>r. [at_col df ''sample-id'' r, at_col df ''absolute-filepath'' r])
       (filter (\<lambda>r. at_col df ''direction'' r = Str d) (rows df))"

definition joined_rows :: "frame \<Rightarrow> cell list list" where
  "joined_rows df =
     concat (map (\<lambda>f. map (\<lambda>r. [at_col df ''sample-id'' f, at_col df ''absolute-filepath'' f,
                                  at_col df ''absolute-filepath'' r])
                        (filter (\<lambda>r. at_col df ''direction'' r = Str ''reverse''
                                   \<and> at_col df ''sample-id'' r = at_col df ''sample-id'' f) (rows df)))
                 (filter (\<lambda>f. at_col df ''direction'' f = Str ''forward'') (rows df)))"

text \<open>What a successful run writes, by version.\<close>

definition written_columns :: "pandas \<Rightarrow> frame \<Rightarrow> string list" where
  "written_columns v df =
     (if v = Before_2_2 \<and> selected df ''forward'' = [] then legacy_columns else wide_columns)"

definition written_rows :: "pandas \<Rightarrow> frame \<Rightarrow> cell list list" where
  "written_rows v df = merged_rows v 0 0 (selected df ''forward'') (selected df ''reverse'')"

section \<open>Example manifests\<close>

text \<open>Two samples, the second one with a forward read only.\<close>

definition scenario_table :: frame where
  "scenario_table =
     \<lparr>columns = [''sample-id'', ''absolute-filepath'', ''direction''],
      rows = [[Str ''S1'', Str ''/a/f1.fastq'', Str ''forward''],
              [Str ''S1'', Str ''/a/r1.fastq'', Str ''reverse''],
              [Str ''S2'', Str ''/a/f2.fastq'', Str ''forward'']]\<rparr>"

definition scenario_world :: world where
  "scenario_world = \<lparr>files = [''manifest.tsv'' \<mapsto> scenario_table], stdout = []\<rparr>"

definition scenario_output :: frame where
  "scenario_output =
     \<lparr>columns = [''sample-id'', ''forward-absolute-filepath'', ''reverse-absolute-filepath''],
      rows = [[Str ''S1'', Str ''/a/f1.fastq'', Str ''/a/r1.fastq'']]\<rparr>"

text \<open>One sample listed with two forward reads and one reverse read.\<close>

definition duplicate_table :: frame where
  "duplicate_table =
     \<lparr>columns = [''sample-id'', ''absolute-filepath'', ''direction''],
      rows = [[Str ''S1'', Str ''/a/f1.fastq'', Str ''forward''],
              [Str ''S1'', Str ''/b/f1.fastq'', Str ''forward''],
              [Str ''S1'', Str ''/a/r1.fastq'', Str ''reverse'']]\<rparr>"

definition duplicate_world :: world where
  "duplicate_world = \<lparr>files = [''manifest.tsv'' \<mapsto> duplicate_table], stdout = []\<rparr>"

definition duplicate_output :: frame where
  "duplicate_output =
     \<lparr>columns = [''sample-id'', ''forward-absolute-filepath'', ''reverse-absolute-filepath''],
      rows = [[Str ''S1'', Str ''/a/f1.fastq'', Str ''/a/r1.fastq''],
              [Str ''S1'', Str ''/b/f1.fastq'', Str ''/a/r1.fastq'']]\<rparr>"

text \<open>
  The same with another sample between the two forward reads: the rows of the join come
  in the order of the forward rows from version 2.2, and grouped by sample before.
\<close>

definition interleaved_table :: frame where
  "interleaved_table =
     \<lparr>columns = [''sample-id'', ''absolute-filepath'', ''direction''],
      rows = [[Str ''S1'', Str ''/a/f1.fastq'', Str ''forward''],
              [Str ''S2'', Str ''/a/f2.fastq'', Str ''forward''],
              [Str ''S1'', Str ''/b/f1.fastq'', Str ''forward''],
              [Str ''S1'', Str ''/a/r1.fastq'', Str ''reverse''],
              [Str ''S2'', Str ''/a/r2.fastq'', Str ''reverse'']]\<rparr>"

definition interleaved_world :: world where
  "interleaved_world = \<lparr>files = [''manifest.tsv'' \<mapsto> interleaved_table], stdout = []\<rparr>"

definition interleaved_output :: frame where
  "interleaved_output =
     \<lparr>columns = [''sample-id'', ''forward-absolute-filepath'', ''reverse-absolute-filepath''],
      rows = [[Str ''S1'', Str ''/a/f1.fastq'', Str ''/a/r1.fastq''],
              [Str ''S2'', Str ''/a/f2.fastq'', Str ''/a/r2.fastq''],
              [Str ''S1'', Str ''/b/f1.fastq'', Str ''/a/r1.fastq'']]\<rparr>"

definition grouped_output :: frame where
  "grouped_output =
     \<lparr>columns = [''sample-id'', ''forward-absolute-filepath'', ''reverse-absolute-filepath''],
      rows = [[Str ''S1'', Str ''/a/f1.fastq'', Str ''/a/r1.fastq''],
              [Str ''S1'', Str ''/b/f1.fastq'', Str ''/a/r1.fastq''],
              [Str ''S2'', Str ''/a/f2.fastq'', Str ''/a/r2.fastq'']]\<rparr>"

text \<open>Two samples, each with one forward and one reverse read, in mixed order.\<close>

definition paired_table :: frame where
  "paired_table =
     \<lparr>columns = [''sample-id'', ''absolute-filepath'', ''direction''],
      rows = [[Str ''S1'', Str ''/a/f1.fastq'', Str ''forward''],
              [Str ''S2'', Str ''/a/r2.fastq'', Str ''reverse''],
              [Str ''S1'', Str ''/a/r1.fastq'', Str ''reverse''],
              [Str ''S2'', Str ''/a/f2.fastq'', Str ''forward'']]\<rparr>"

definition paired_world :: world where
  "paired_world = \<lparr>files = [''manifest.tsv'' \<mapsto> paired_table], stdout = []\<rparr>"

definition paired_output :: frame where
  "paired_output =
     \<lparr>columns = [''sample-id'', ''forward-absolute-filepath'', ''reverse-absolute-filepath''],
      rows = [[Str ''S1'', Str ''/a/f1.fastq'', Str ''/a/r1.fastq''],
              [Str ''S2'', Str ''/a/f2.fastq'', Str ''/a/r2.fastq'']]\<rparr>"

text \<open>
  No sample with both directions: two one-sided samples, a header without rows, and a
  single reverse read. Without a forward row the header written before version 2.2 has
  the sample identifier in the second place.
\<close>

definition one_sided_table :: frame where
  "one_sided_table =
     \<lparr>columns = [''sample-id'', ''absolute-filepath'', ''direction''],
      rows = [[Str ''S1'', Str ''/a/f1.fastq'', Str ''forward''],
              [Str ''S2'', Str ''/a/r2.fastq'', Str ''reverse'']]\<rparr>"

definition one_sided_world :: world where
  "one_sided_world = \<lparr>files = [''manifest.tsv'' \<mapsto> one_sided_table], stdout = []\<rparr>"

definition header_only_table :: frame where
  "header_only_table =
     \<lparr>columns = [''sample-id'', ''absolute-filepath'', ''direction''], rows = []\<rparr>"

definition header_only_world :: world where
  "header_only_world = \<lparr>files = [''manifest.tsv'' \<mapsto> header_only_table], stdout = []\<rparr>"

definition header_only_output :: frame where
  "header_only_output =
     \<lparr>columns = [''sample-id'', ''forward-absolute-filepath'', ''reverse-absolute-filepath''],
      rows = []\<rparr>"

definition legacy_header_only_output :: frame where
  "legacy_header_only_output =
     \<lparr>columns = [''forward-absolute-filepath'', ''sample-id'', ''reverse-absolute-filepath''],
      rows = []\<rparr>"

definition reverse_only_table :: frame where
  "reverse_only_table =
     \<lparr>columns = [''sample-id'', ''absolute-filepath'', ''direction''],
      rows = [[Str ''S1'', Str ''/a/r1.fastq'', Str ''reverse'']]\<rparr>"

definition reverse_only_world :: world where
  "reverse_only_world = \<lparr>files = [''manifest.tsv'' \<mapsto> reverse_only_table], stdout = []\<rparr>"

text \<open>No input file at all, and an input file without the direction column.\<close>

definition absent_world :: world where
  "absent_world = \<lparr>files = Map.empty, stdout = []\<rparr>"

definition no_direction_table :: frame where
  "no_direction_table =
     \<lparr>columns = [''sample-id'', ''absolute-filepath''],
      rows = [[Str ''S1'', Str ''/a/f1.fastq'']]\<rparr>"

definition no_direction_world :: world where
  "no_direction_world = \<lparr>files = [''manifest.tsv'' \<mapsto> no_direction_table], stdout = []\<rparr>"

text \<open>The first manifest again, with two more columns and the columns in another order.\<close>

definition annotated_table :: frame where
  "annotated_table =
     \<lparr>columns = [''lane'', ''sample-id'', ''direction'', ''absolute-filepath'', ''note''],
      rows = [[Num 1, Str ''S1'', Str ''forward'', Str ''/a/f1.fastq'', Str ''ok''],
              [Num 1, Str ''S1'', Str ''reverse'', Str ''/a/r1.fastq'', NaN],
              [Num 2, Str ''S2'', Str ''forward'', Str ''/a/f2.fastq'', Str ''rerun'']]\<rparr>"

definition annotated_world :: world where
  "annotated_world = \<lparr>files = [''manifest.tsv'' \<mapsto> annotated_table], stdout = []\<rparr>"

definition success_line :: string where
  "success_line = ''manifest_v2.tsv created successfully''"

section \<open>What the script computes\<close>

subsection \<open>Selecting the rows of one direction\<close>

lemma get_loc_None_iff: "get_loc cs c = None \<longleftrightarrow> c \<notin> set cs"
  by (induction cs) auto

lemma mask_filter: "map snd (filter fst (zip (map P xs) xs)) = filter P xs"
  by (induction xs) auto

lemma at_col_mask [simp]: "at_col (getitem_mask df bs) c r = at_col df c r"
  by (simp add: at_col_def getitem_mask_def)

lemma getitem_col_absent: "c \<notin> set (columns df) \<Longrightarrow> getitem_col df c = Inl (KeyError [c])"
  by (simp add: getitem_col_def get_loc_None_iff [THEN iffD2])

lemma getitem_col_present:
  "c \<in> set (columns df) \<Longrightarrow> getitem_col df c = Inr (map (at_col df c) (rows df))"
  using get_loc_None_iff [of "columns df" c] by (auto simp: getitem_col_def at_col_def)

lemma getitem_direction:
  assumes "has_required_columns df"
  shows "getitem_col df ''direction'' = Inr (map (\<lambda>r. at_col df ''direction'' r) (rows df))"
proof -
  have "get_loc (columns df) ''direction'' \<noteq> None"
    using assms by (simp add: get_loc_None_iff has_required_columns_def required_columns_def)
  then show ?thesis by (auto simp: getitem_col_def at_col_def)
qed

lemma select_direction:
  assumes "has_required_columns df"
  shows "getitem_cols (getitem_mask df (eq_scalar (map (\<lambda>r. at_col df ''direction'' r) (rows df)) v))
           [''sample-id'', ''absolute-filepath'']
         = Inr \<lparr>columns = [''sample-id'', ''absolute-filepath''],
                rows = map (\<lambda>r. [at_col df ''sample-id'' r, at_col df ''absolute-filepath'' r])
                         (filter (\<lambda>r. at_col df ''direction'' r = v) (rows df))\<rparr>"
proof -
  have "get_loc (columns df) ''sample-id'' \<noteq> None" "get_loc (columns df) ''absolute-filepath'' \<noteq> None"
    using assms by (simp_all add: get_loc_None_iff has_required_columns_def required_columns_def)
  then show ?thesis
    by (simp add: getitem_cols_def eq_scalar_def getitem_mask_def mask_filter o_def at_col_def)
qed

lemma fwd_eq:
  assumes "has_required_columns df"
  shows "fwd df = Inr \<lparr>columns = [''sample-id'', ''forward-absolute-filepath''],
                       rows = selected df ''forward''\<rparr>"
  by (simp add: fwd_def getitem_direction [OF assms] select_direction [OF assms] set_columns_def
        selected_def)

lemma rev_frame_eq:
  assumes "has_required_columns df"
  shows "rev_frame df = Inr \<lparr>columns = [''sample-id'', ''reverse-absolute-filepath''],
                             rows = selected df ''reverse''\<rparr>"
  by (simp add: rev_frame_def getitem_direction [OF assms] select_direction [OF assms]
        set_columns_def selected_def)

subsection \<open>The join\<close>

lemma join_selected:
  "join_rows 0 0 (selected df ''forward'') (selected df ''reverse'') = joined_rows df"
  by (simp add: join_rows_def selected_def joined_rows_def drop_at_def cell_at_def o_def
        filter_map conj_commute)

lemma manifest_v2_eq:
  assumes "has_required_columns df"
  shows "manifest_v2 v df = Inr \<lparr>columns = written_columns v df, rows = written_rows v df\<rparr>"
  by (simp add: manifest_v2_def fwd_eq [OF assms] rev_frame_eq [OF assms] merge_def
        merged_columns_def written_columns_def written_rows_def wide_columns_def
        legacy_columns_def drop_at_def)

lemma manifest_v2_error:
  assumes "\<not> has_required_columns df"
  shows "\<exists>e. manifest_v2 v df = Inl e"
proof (cases "''direction'' \<in> set (columns df)")
  case False
  then show ?thesis by (simp add: manifest_v2_def fwd_def getitem_col_absent)
next
  case True
  with assms have "''sample-id'' \<notin> set (columns df) \<or> ''absolute-filepath'' \<notin> set (columns df)"
    by (auto simp: has_required_columns_def required_columns_def)
  then have "filter (\<lambda>c. get_loc (columns df) c = None) [''sample-id'', ''absolute-filepath''] \<noteq> []"
    by (auto simp: get_loc_None_iff)
  then show ?thesis
    by (simp add: manifest_v2_def fwd_def getitem_col_present [OF True] getitem_cols_def
          getitem_mask_def Let_def)
qed

text \<open>
  Whatever the version, the rows of the join are the same rows as many times: grouping
  the left rows by key rearranges them and does nothing else.
\<close>

lemma partition_by_key:
  assumes "distinct ks"
  shows "mset (concat (map (\<lambda>k. concat (map h (filter (\<lambda>l. key l = k) (x # xs)))) ks))
         = (if key x \<in> set ks then mset (h x) else {#})
           + mset (concat (map (\<lambda>k. concat (map h (filter (\<lambda>l. key l = k) xs))) ks))"
  using assms by (induction ks) auto

lemma mset_grouped:
  assumes "distinct ks" and "key ` set xs \<subseteq> set ks"
  shows "mset (concat (map (\<lambda>k. concat (map h (filter (\<lambda>l. key l = k) xs))) ks))
         = mset (concat (map h xs))"
  using assms(2)
proof (induction xs)
  case Nil
  show ?case by (induction ks) simp_all
next
  case (Cons x xs)
  then have "key x \<in> set ks" and "key ` set xs \<subseteq> set ks" by auto
  with Cons.IH partition_by_key [OF assms(1), of h key x xs] show ?case
    by simp
qed

lemma group_order_distinct: "distinct (group_order ks)"
  by (simp add: group_order_def)

lemma group_order_covers: "set ks \<subseteq> set (group_order ks)"
  by (auto simp: group_order_def)

lemma mset_merged_rows: "mset (merged_rows v i j ls rs) = mset (join_rows i j ls rs)"
proof (cases v)
  case From_2_2
  then show ?thesis by (simp add: merged_rows_def)
next
  case Before_2_2
  have "key ` set ls \<subseteq> set (group_order (map key ls))" for key :: "cell list \<Rightarrow> cell"
    using group_order_covers [of "map key ls"] by simp
  then show ?thesis
    using Before_2_2
    by (simp add: merged_rows_def join_rows_def mset_grouped [OF group_order_distinct])
qed

lemma mset_written_rows: "mset (written_rows v df) = mset (joined_rows df)"
  by (simp add: written_rows_def mset_merged_rows join_selected)

lemma set_written_rows: "set (written_rows v df) = set (joined_rows df)"
  using mset_written_rows [of v df] by (rule mset_eq_setD)

lemma length_written_rows: "length (written_rows v df) = length (joined_rows df)"
  using mset_written_rows [of v df] by (rule mset_eq_length)

lemma count_list_written_rows: "count_list (written_rows v df) y = count_list (joined_rows df) y"
  using mset_written_rows [of v df] by (metis count_mset)

lemma length_filter_written_rows:
  "length (filter P (written_rows v df)) = length (filter P (joined_rows df))"
proof -
  have "mset (filter P (written_rows v df)) = mset (filter P (joined_rows df))"
    by (simp add: mset_written_rows)
  then show ?thesis by (rule mset_eq_length)
qed

text \<open>The header, by version and by whether the input has a forward row.\<close>

lemma selected_forward_empty: "selected df ''forward'' = [] \<longleftrightarrow> \<not> has_forward_row df"
  by (auto simp: selected_def has_forward_row_def filter_empty_conv)

lemma written_columns_cases:
  "written_columns v df = (if v = Before_2_2 \<and> \<not> has_forward_row df then legacy_columns else wide_columns)"
  by (simp add: written_columns_def selected_forward_empty)

lemma written_columns_set:
  "set (written_columns v df)
     = {''sample-id'', ''forward-absolute-filepath'', ''reverse-absolute-filepath''}"
  "length (written_columns v df) = 3"
  by (auto simp: written_columns_def legacy_columns_def wide_columns_def)

lemma written_rows_no_forward:
  assumes "\<not> has_forward_row df"
  shows "written_rows v df = []"
proof -
  have "joined_rows df = []"
    using assms by (simp add: joined_rows_def has_forward_row_def filter_empty_conv)
  then have "mset (written_rows v df) = {#}" by (simp add: mset_written_rows)
  then show ?thesis by simp
qed

lemma written_columns_of_row:
  assumes "y \<in> set (written_rows v df)"
  shows "written_columns v df = wide_columns"
proof -
  from assms have "has_forward_row df"
    using written_rows_no_forward [of df v] by (cases "has_forward_row df") auto
  then show ?thesis by (simp add: written_columns_cases)
qed

subsection \<open>Writing the file\<close>

lemma to_csv_columns:
  "columns (the (files (to_csv df path tab False w) path)) = columns df"
  "length (columns (the (files (to_csv df path tab True w) path))) = Suc (length (columns df))"
  "sep \<noteq> tab \<Longrightarrow> length (columns (the (files (to_csv df path sep index w) path))) = 1"
  by (simp_all add: to_csv_def with_index_def one_column_def)

subsection \<open>A run\<close>

lemma has_required_nonempty: "has_required_columns df \<Longrightarrow> columns df \<noteq> []"
  by (auto simp: has_required_columns_def required_columns_def)

lemma main_success:
  assumes "files w ''manifest.tsv'' = Some df" and "has_required_columns df"
  shows "main v w = (None, w\<lparr>files := (files w)(''manifest_v2.tsv'' \<mapsto>
                               \<lparr>columns = written_columns v df, rows = written_rows v df\<rparr>),
                            stdout := stdout w @ [''manifest_v2.tsv created successfully'']\<rparr>)"
  using assms has_required_nonempty [OF assms(2)]
  by (simp add: main_def read_csv_def manifest_v2_eq to_csv_def print_def)

lemma main_failure:
  assumes "files w ''manifest.tsv'' = None \<or>
           (\<exists>df. files w ''manifest.tsv'' = Some df \<and> \<not> has_required_columns df)"
  shows "\<exists>e. main v w = (Some e, w)"
  using assms
proof
  assume "files w ''manifest.tsv'' = None"
  then show ?thesis by (simp add: main_def read_csv_def)
next
  assume "\<exists>df. files w ''manifest.tsv'' = Some df \<and> \<not> has_required_columns df"
  then obtain df where df: "files w ''manifest.tsv'' = Some df" "\<not> has_required_columns df"
    by blast
  from manifest_v2_error [OF df(2)] obtain e where "manifest_v2 v df = Inl e" ..
  with df(1) show ?thesis by (simp add: main_def read_csv_def)
qed

lemma main_None_D:
  assumes "fst (main v w) = None"
  shows "\<exists>df. files w ''manifest.tsv'' = Some df \<and> has_required_columns df"
proof (rule ccontr)
  assume "\<not> ?thesis"
  then have "files w ''manifest.tsv'' = None \<or>
           (\<exists>df. files w ''manifest.tsv'' = Some df \<and> \<not> has_required_columns df)"
    by (cases "files w ''manifest.tsv''") auto
  from main_failure [OF this, of v] assms show False by auto
qed

lemma main_output:
  assumes "files w ''manifest.tsv'' = Some df" and "main v w = (None, w')"
    and "files w' ''manifest_v2.tsv'' = Some out"
  shows "has_required_columns df \<and>
         out = \<lparr>columns = written_columns v df, rows = written_rows v df\<rparr>"
proof -
  from assms(2) have "fst (main v w) = None" by simp
  from main_None_D [OF this] assms(1) have req: "has_required_columns df" by simp
  from main_success [OF assms(1) req, of v] assms(2,3) show ?thesis using req by auto
qed

lemma main_error_unchanged:
  assumes "fst (main v w) = Some e"
  shows "snd (main v w) = w"
  using assms by (auto simp: main_def split: sum.splits)

lemma main_frame:
  assumes "p \<noteq> ''manifest_v2.tsv''"
  shows "files (snd (main v w)) p = files w p"
  using assms by (auto simp: main_def to_csv_def print_def split: sum.splits)

lemma main_write_needs_join:
  assumes "files (snd (main v w)) ''manifest_v2.tsv'' \<noteq> files w ''manifest_v2.tsv''"
  shows "\<exists>df m. read_csv w ''manifest.tsv'' = Inr df \<and> manifest_v2 v df = Inr m"
  using assms by (auto simp: main_def split: sum.splits)

subsection \<open>The joined rows\<close>

lemma at_col_wide:
  "at_col \<lparr>columns = wide_columns, rows = rs\<rparr> ''sample-id'' y = cell_at y 0"
  "at_col \<lparr>columns = wide_columns, rows = rs\<rparr> ''forward-absolute-filepath'' y = cell_at y 1"
  "at_col \<lparr>columns = wide_columns, rows = rs\<rparr> ''reverse-absolute-filepath'' y = cell_at y 2"
  by (simp_all add: at_col_def wide_columns_def numeral_2_eq_2)

lemma at_col_written:
  assumes "y \<in> set (written_rows v df)"
  shows "at_col \<lparr>columns = written_columns v df, rows = rs\<rparr> ''sample-id'' y = cell_at y 0"
    and "at_col \<lparr>columns = written_columns v df, rows = rs\<rparr> ''forward-absolute-filepath'' y
           = cell_at y 1"
    and "at_col \<lparr>columns = written_columns v df, rows = rs\<rparr> ''reverse-absolute-filepath'' y
           = cell_at y 2"
  by (simp_all add: written_columns_of_row [OF assms] at_col_wide)

lemma in_joined_rows:
  "y \<in> set (joined_rows df) \<longleftrightarrow>
     (\<exists>f \<in> set (rows df). \<exists>r \<in> set (rows df).
        at_col df ''direction'' f = Str ''forward'' \<and> at_col df ''direction'' r = Str ''reverse'' \<and>
        at_col df ''sample-id'' r = at_col df ''sample-id'' f \<and>
        y = [at_col df ''sample-id'' f, at_col df ''absolute-filepath'' f,
             at_col df ''absolute-filepath'' r])"
  by (auto simp: joined_rows_def)

lemma joined_row_sources:
  assumes "y \<in> set (joined_rows df)"
  shows "\<exists>f \<in> set (rows_of df (cell_at y 0) ''forward'').
         \<exists>r \<in> set (rows_of df (cell_at y 0) ''reverse'').
           y = [cell_at y 0, at_col df ''absolute-filepath'' f, at_col df ''absolute-filepath'' r]"
proof -
  from assms obtain f r where fr: "f \<in> set (rows df)" "r \<in> set (rows df)"
      "at_col df ''direction'' f = Str ''forward''" "at_col df ''direction'' r = Str ''reverse''"
      "at_col df ''sample-id'' r = at_col df ''sample-id'' f"
      "y = [at_col df ''sample-id'' f, at_col df ''absolute-filepath'' f,
            at_col df ''absolute-filepath'' r]"
    unfolding in_joined_rows by blast
  have k: "cell_at y 0 = at_col df ''sample-id'' f"
    by (simp add: fr(6) cell_at_def)
  have "f \<in> set (rows_of df (cell_at y 0) ''forward'')"
    using fr(1,3) by (simp add: rows_of_def k)
  moreover have "r \<in> set (rows_of df (cell_at y 0) ''reverse'')"
    using fr(2,4,5) by (simp add: rows_of_def k)
  moreover have "y = [cell_at y 0, at_col df ''absolute-filepath'' f, at_col df ''absolute-filepath'' r]"
    using fr(6) k by simp
  ultimately show ?thesis by blast
qed

lemma joined_rows_empty:
  assumes "\<forall>s \<in> sample_ids df. count_rows df s ''forward'' = 0 \<or> count_rows df s ''reverse'' = 0"
  shows "joined_rows df = []"
proof (rule ccontr)
  assume "joined_rows df \<noteq> []"
  then obtain y where y: "y \<in> set (joined_rows df)"
    by (cases "joined_rows df") auto
  from joined_row_sources [OF y] obtain f r
    where f: "f \<in> set (rows_of df (cell_at y 0) ''forward'')"
      and r: "r \<in> set (rows_of df (cell_at y 0) ''reverse'')"
    by blast
  from f have "cell_at y 0 \<in> sample_ids df"
    by (force simp: rows_of_def sample_ids_def)
  with assms have "rows_of df (cell_at y 0) ''forward'' = [] \<or> rows_of df (cell_at y 0) ''reverse'' = []"
    by (simp add: count_rows_def)
  with f r show False by auto
qed

lemma written_rows_empty:
  assumes "\<forall>s \<in> sample_ids df. count_rows df s ''forward'' = 0 \<or> count_rows df s ''reverse'' = 0"
  shows "written_rows v df = []"
proof -
  have "mset (written_rows v df) = {#}"
    by (simp add: mset_written_rows joined_rows_empty [OF assms])
  then show ?thesis by simp
qed

text \<open>Counting: the rows of one sample, the copies of one row, and all rows.\<close>

lemma count_join:
  assumes "\<And>f r. cell_at (g f r) 0 = k f"
  shows "length (filter (\<lambda>y. cell_at y 0 = s)
           (concat (map (\<lambda>f. map (g f) (filter (\<lambda>r. Q r \<and> k r = k f) ys)) (filter P xs))))
         = length (filter (\<lambda>f. k f = s \<and> P f) xs) * length (filter (\<lambda>r. k r = s \<and> Q r) ys)"
proof (induction xs)
  case Nil
  show ?case by simp
next
  case (Cons f xs)
  have one: "length (filter (\<lambda>y. cell_at y 0 = s) (map (g f) zs)) = (if k f = s then length zs else 0)" for zs
    by (induction zs) (simp_all add: assms)
  have same: "filter (\<lambda>r. Q r \<and> k r = s) ys = filter (\<lambda>r. k r = s \<and> Q r) ys"
    by (simp add: conj_commute)
  show ?case
  proof (cases "P f")
    case False
    with Cons.IH show ?thesis by simp
  next
    case True
    have "length (filter (\<lambda>y. cell_at y 0 = s)
            (concat (map (\<lambda>f. map (g f) (filter (\<lambda>r. Q r \<and> k r = k f) ys)) (filter P (f # xs)))))
          = length (filter (\<lambda>y. cell_at y 0 = s) (map (g f) (filter (\<lambda>r. Q r \<and> k r = k f) ys)))
            + length (filter (\<lambda>f. k f = s \<and> P f) xs) * length (filter (\<lambda>r. k r = s \<and> Q r) ys)"
      using True Cons.IH by (simp del: filter_map)
    also have "length (filter (\<lambda>y. cell_at y 0 = s) (map (g f) (filter (\<lambda>r. Q r \<and> k r = k f) ys)))
          = (if k f = s then length (filter (\<lambda>r. k r = s \<and> Q r) ys) else 0)"
      by (auto simp: assms conj_commute)
    finally show ?thesis using True by simp
  qed
qed

lemma count_joined_rows:
  "length (filter (\<lambda>y. cell_at y 0 = s) (joined_rows df))
     = count_rows df s ''forward'' * count_rows df s ''reverse''"
  unfolding joined_rows_def count_rows_def rows_of_def
  by (rule count_join) (simp add: cell_at_def)

lemma count_pairs:
  "count_list (concat (map (\<lambda>f. map (\<lambda>r. [k f, a f, a r]) (filter (\<lambda>r. Q r \<and> k r = k f) ys))
                        (filter P xs))) [s, p, q]
   = length (filter (\<lambda>f. a f = p) (filter (\<lambda>f. k f = s \<and> P f) xs))
     * length (filter (\<lambda>r. a r = q) (filter (\<lambda>r. k r = s \<and> Q r) ys))"
proof (induction xs)
  case Nil
  show ?case by simp
next
  case (Cons f xs)
  have one: "count_list (map (\<lambda>r. [k f, a f, a r]) zs) [s, p, q]
               = (if k f = s \<and> a f = p then length (filter (\<lambda>r. a r = q) zs) else 0)" for zs
    by (induction zs) auto
  show ?case
  proof (cases "P f")
    case False
    with Cons.IH show ?thesis by simp
  next
    case True
    then show ?thesis
      using Cons.IH by (auto simp: one conj_commute)
  qed
qed

lemma count_pairs_joined:
  "count_list (joined_rows df) [s, p, q]
   = length (filter (\<lambda>f. at_col df ''absolute-filepath'' f = p) (rows_of df s ''forward''))
     * length (filter (\<lambda>r. at_col df ''absolute-filepath'' r = q) (rows_of df s ''reverse''))"
  unfolding joined_rows_def rows_of_def by (rule count_pairs)

lemma count_list_map_filter:
  "count_list (map k (filter P xs)) s = length (filter (\<lambda>r. k r = s \<and> P r) xs)"
  by (induction xs) auto

lemma length_joined_rows:
  "length (joined_rows df)
     = sum_list (map (\<lambda>f. count_rows df (at_col df ''sample-id'' f) ''reverse'')
                  (filter (\<lambda>f. at_col df ''direction'' f = Str ''forward'') (rows df)))"
  by (simp add: joined_rows_def length_concat o_def count_rows_def rows_of_def conj_commute)

lemma length_joined_paired:
  assumes "\<forall>s \<in> sample_ids df. count_rows df s ''forward'' = 1 \<and> count_rows df s ''reverse'' = 1"
  shows "length (joined_rows df) = card (sample_ids df)"
proof -
  let ?F = "filter (\<lambda>f. at_col df ''direction'' f = Str ''forward'') (rows df)"
  let ?ks = "map (at_col df ''sample-id'') ?F"
  have "\<forall>f \<in> set ?F. count_rows df (at_col df ''sample-id'' f) ''reverse'' = 1"
    using assms by (auto simp: sample_ids_def)
  then have "map (\<lambda>f. count_rows df (at_col df ''sample-id'' f) ''reverse'') ?F = map (\<lambda>f. 1) ?F"
    by (intro map_cong) auto
  then have len: "length (joined_rows df) = length ?F"
    by (simp add: length_joined_rows sum_list_triv del: map_eq_conv)
  have sub: "set ?ks \<subseteq> sample_ids df"
    by (auto simp: sample_ids_def)
  have fin: "finite (sample_ids df)"
    by (simp add: sample_ids_def)
  have cnt: "count_list ?ks s = count_rows df s ''forward''" for s
    by (simp add: count_list_map_filter count_rows_def rows_of_def)
  have "length ?ks = sum (count_list ?ks) (sample_ids df)"
    using sum_count_set [OF sub fin] by simp
  also have "\<dots> = sum (\<lambda>s. 1) (sample_ids df)"
    using assms by (intro sum.cong) (auto simp: cnt)
  also have "\<dots> = card (sample_ids df)"
    by simp
  finally show ?thesis using len by simp
qed

text \<open>The selections, and so what is written, depend on the three columns only.\<close>

lemma map_triple_eq:
  assumes "map a xs = map a' ys" and "map b xs = map b' ys" and "map c xs = map c' ys"
  shows "map (\<lambda>r. (a r, b r, c r)) xs = map (\<lambda>r. (a' r, b' r, c' r)) ys"
  using assms
proof (induction xs arbitrary: ys)
  case Nil
  then show ?case by simp
next
  case (Cons x xs)
  then obtain y ys' where ys: "ys = y # ys'" by (cases ys) auto
  with Cons.prems Cons.IH [of ys'] show ?case by simp
qed

lemma selected_cong:
  assumes "map (at_col df1 ''sample-id'') (rows df1) = map (at_col df2 ''sample-id'') (rows df2)"
    and "map (at_col df1 ''direction'') (rows df1) = map (at_col df2 ''direction'') (rows df2)"
    and "map (at_col df1 ''absolute-filepath'') (rows df1)
           = map (at_col df2 ''absolute-filepath'') (rows df2)"
  shows "selected df1 d = selected df2 d"
proof -
  define T where "T df = map (\<lambda>r. (at_col df ''sample-id'' r, at_col df ''direction'' r,
                                    at_col df ''absolute-filepath'' r)) (rows df)" for df
  define G where "G ts = map (\<lambda>t. [fst t, snd (snd t)]) (filter (\<lambda>t. fst (snd t) = Str d) ts)"
    for ts :: "(cell \<times> cell \<times> cell) list"
  have S: "selected df d = G (T df)" for df
    by (simp add: selected_def G_def T_def filter_map o_def)
  have "T df1 = T df2"
    unfolding T_def using assms by (rule map_triple_eq)
  then show ?thesis by (simp add: S)
qed

lemma written_cong:
  assumes "selected df1 ''forward'' = selected df2 ''forward''"
    and "selected df1 ''reverse'' = selected df2 ''reverse''"
  shows "written_columns v df1 = written_columns v df2"
    and "written_rows v df1 = written_rows v df2"
  using assms by (simp_all add: written_columns_def written_rows_def)

section \<open>Runs on the example manifests\<close>

lemmas eval_defs =
  main_def read_csv_def manifest_v2_def fwd_def rev_frame_def merge_def merged_columns_def
  merged_rows_def join_rows_def group_order_def getitem_col_def getitem_cols_def
  getitem_mask_def eq_scalar_def set_columns_def at_col_def cell_at_def drop_at_def
  to_csv_def print_def

lemmas count_defs = count_rows_def rows_of_def at_col_def cell_at_def

lemma main_scenario:
  "main v scenario_world =
     (None, \<lparr>files = [''manifest.tsv'' \<mapsto> scenario_table, ''manifest_v2.tsv'' \<mapsto> scenario_output],
             stdout = [success_line]\<rparr>)"
  by (cases v)
     (simp_all add: scenario_world_def scenario_table_def scenario_output_def success_line_def
        eval_defs)

lemma main_duplicate:
  "main v duplicate_world =
     (None, \<lparr>files = [''manifest.tsv'' \<mapsto> duplicate_table, ''manifest_v2.tsv'' \<mapsto> duplicate_output],
             stdout = [success_line]\<rparr>)"
  by (cases v)
     (simp_all add: duplicate_world_def duplicate_table_def duplicate_output_def success_line_def
        eval_defs)

lemma main_paired:
  "main v paired_world =
     (None, \<lparr>files = [''manifest.tsv'' \<mapsto> paired_table, ''manifest_v2.tsv'' \<mapsto> paired_output],
             stdout = [success_line]\<rparr>)"
  by (cases v)
     (simp_all add: paired_world_def paired_table_def paired_output_def success_line_def
        eval_defs)

lemma main_one_sided:
  "main v one_sided_world =
     (None, \<lparr>files = [''manifest.tsv'' \<mapsto> one_sided_table, ''manifest_v2.tsv'' \<mapsto> header_only_output],
             stdout = [success_line]\<rparr>)"
  by (cases v)
     (simp_all add: one_sided_world_def one_sided_table_def header_only_output_def success_line_def
        eval_defs)

lemma main_interleaved_current:
  "main From_2_2 interleaved_world =
     (None, \<lparr>files = [''manifest.tsv'' \<mapsto> interleaved_table,
                       ''manifest_v2.tsv'' \<mapsto> interleaved_output],
             stdout = [success_line]\<rparr>)"
  by (simp add: interleaved_world_def interleaved_table_def interleaved_output_def
        success_line_def eval_defs)

lemma main_interleaved_legacy:
  "main Before_2_2 interleaved_world =
     (None, \<lparr>files = [''manifest.tsv'' \<mapsto> interleaved_table,
                       ''manifest_v2.tsv'' \<mapsto> grouped_output],
             stdout = [success_line]\<rparr>)"
  by (simp add: interleaved_world_def interleaved_table_def grouped_output_def
        success_line_def eval_defs)

lemma main_header_only_current:
  "main From_2_2 header_only_world =
     (None, \<lparr>files = [''manifest.tsv'' \<mapsto> header_only_table,
                       ''manifest_v2.tsv'' \<mapsto> header_only_output],
             stdout = [success_line]\<rparr>)"
  by (simp add: header_only_world_def header_only_table_def header_only_output_def
        success_line_def eval_defs)

lemma main_header_only_legacy:
  "main Before_2_2 header_only_world =
     (None, \<lparr>files = [''manifest.tsv'' \<mapsto> header_only_table,
                       ''manifest_v2.tsv'' \<mapsto> legacy_header_only_output],
             stdout = [success_line]\<rparr>)"
  by (simp add: header_only_world_def header_only_table_def legacy_header_only_output_def
        success_line_def eval_defs)

lemma main_reverse_only_legacy:
  "main Before_2_2 reverse_only_world =
     (None, \<lparr>files = [''manifest.tsv'' \<mapsto> reverse_only_table,
                       ''manifest_v2.tsv'' \<mapsto> legacy_header_only_output],
             stdout = [success_line]\<rparr>)"
  by (simp add: reverse_only_world_def reverse_only_table_def legacy_header_only_output_def
        success_line_def eval_defs)

section \<open>Properties of the manifest\<close>

text \<open>
  In the theorems below \<open>v\<close> is the version of the library, a successful run is
  \<open>main v w = (None, w')\<close> or \<open>fst (main v w) = None\<close>, the table read is the one the
  world \<open>w\<close> holds at \<^verbatim>\<open>manifest.tsv\<close> and the table written is the one the world after
  the run holds at \<^verbatim>\<open>manifest_v2.tsv\<close>. Every theorem holds for both versions.
\<close>

text \<open>
  Claim C1. A sample identifier that has a forward row but no reverse row, or a reverse
  row but no forward row, is the sample identifier of no row of the table written: the
  join keeps only the identifiers present on both sides.
\<close>

theorem one_direction_only_dropped:
  assumes "files w ''manifest.tsv'' = Some df"
    and "main v w = (None, w')"
    and "files w' ''manifest_v2.tsv'' = Some out"
    and "(1 \<le> count_rows df s ''forward'' \<and> count_rows df s ''reverse'' = 0) \<or>
         (1 \<le> count_rows df s ''reverse'' \<and> count_rows df s ''forward'' = 0)"
  shows "\<forall>y \<in> set (rows out). at_col out ''sample-id'' y \<noteq> s"
proof
  fix y assume y: "y \<in> set (rows out)"
  from main_output [OF assms(1-3)]
  have out: "out = \<lparr>columns = written_columns v df, rows = written_rows v df\<rparr>"
    by simp
  from y out have yw: "y \<in> set (written_rows v df)" by simp
  show "at_col out ''sample-id'' y \<noteq> s"
  proof
    assume "at_col out ''sample-id'' y = s"
    with yw out have "y \<in> set (filter (\<lambda>y. cell_at y 0 = s) (joined_rows df))"
      by (simp add: at_col_written set_written_rows)
    then have "0 < length (filter (\<lambda>y. cell_at y 0 = s) (joined_rows df))"
      by (simp only: length_pos_if_in_set)
    with assms(4) show False
      by (auto simp: count_joined_rows)
  qed
qed

theorem one_direction_only_dropped_witness:
  "files scenario_world ''manifest.tsv'' = Some scenario_table \<and>
   fst (main From_2_2 scenario_world) = None \<and>
   files (snd (main From_2_2 scenario_world)) ''manifest_v2.tsv'' = Some scenario_output \<and>
   count_rows scenario_table (Str ''S2'') ''forward'' = 1 \<and>
   count_rows scenario_table (Str ''S2'') ''reverse'' = 0 \<and>
   Str ''S2'' \<notin> at_col scenario_output ''sample-id'' ` set (rows scenario_output)"
proof -
  have f: "files scenario_world ''manifest.tsv'' = Some scenario_table"
    by (simp add: scenario_world_def)
  have o: "files \<lparr>files = [''manifest.tsv'' \<mapsto> scenario_table, ''manifest_v2.tsv'' \<mapsto> scenario_output],
             stdout = [success_line]\<rparr> ''manifest_v2.tsv'' = Some scenario_output"
    by simp
  have c1: "count_rows scenario_table (Str ''S2'') ''forward'' = 1"
    by (simp add: count_rows_def rows_of_def scenario_table_def at_col_def cell_at_def)
  have c0: "count_rows scenario_table (Str ''S2'') ''reverse'' = 0"
    by (simp add: count_rows_def rows_of_def scenario_table_def at_col_def cell_at_def)
  have h: "(1 \<le> count_rows scenario_table (Str ''S2'') ''forward'' \<and>
            count_rows scenario_table (Str ''S2'') ''reverse'' = 0) \<or>
           (1 \<le> count_rows scenario_table (Str ''S2'') ''reverse'' \<and>
            count_rows scenario_table (Str ''S2'') ''forward'' = 0)"
    using c1 c0 by simp
  from one_direction_only_dropped [OF f main_scenario [of From_2_2] o h] f c1 c0 show ?thesis
    by (auto simp: main_scenario)
qed

text \<open>
  Claim C2. For every row of the table written, its forward path is the path of a
  forward row of the input with the same sample identifier, and its reverse path is the
  path of a reverse row of the input with the same sample identifier.
\<close>

theorem filepaths_come_from_matching_rows:
  assumes "files w ''manifest.tsv'' = Some df"
    and "main v w = (None, w')"
    and "files w' ''manifest_v2.tsv'' = Some out"
    and "y \<in> set (rows out)"
  shows "(\<exists>f \<in> set (rows_of df (at_col out ''sample-id'' y) ''forward'').
            at_col out ''forward-absolute-filepath'' y = at_col df ''absolute-filepath'' f) \<and>
         (\<exists>r \<in> set (rows_of df (at_col out ''sample-id'' y) ''reverse'').
            at_col out ''reverse-absolute-filepath'' y = at_col df ''absolute-filepath'' r)"
proof -
  from main_output [OF assms(1-3)]
  have out: "out = \<lparr>columns = written_columns v df, rows = written_rows v df\<rparr>"
    by simp
  with assms(4) have yw: "y \<in> set (written_rows v df)" by simp
  then have "y \<in> set (joined_rows df)" by (simp add: set_written_rows)
  from joined_row_sources [OF this] obtain f r
    where f: "f \<in> set (rows_of df (cell_at y 0) ''forward'')"
      and r: "r \<in> set (rows_of df (cell_at y 0) ''reverse'')"
      and y: "y = [cell_at y 0, at_col df ''absolute-filepath'' f, at_col df ''absolute-filepath'' r]"
    by blast
  have "cell_at y 1 = at_col df ''absolute-filepath'' f"
    by (subst y) (simp add: cell_at_def)
  moreover have "cell_at y 2 = at_col df ''absolute-filepath'' r"
    by (subst y) (simp add: cell_at_def)
  ultimately show ?thesis
    using f r by (auto simp: out at_col_written [OF yw])
qed

theorem filepaths_come_from_matching_rows_witness:
  "files scenario_world ''manifest.tsv'' = Some scenario_table \<and>
   main Before_2_2 scenario_world =
     (None, \<lparr>files = [''manifest.tsv'' \<mapsto> scenario_table, ''manifest_v2.tsv'' \<mapsto> scenario_output],
             stdout = [success_line]\<rparr>) \<and>
   rows scenario_output = [[Str ''S1'', Str ''/a/f1.fastq'', Str ''/a/r1.fastq'']] \<and>
   rows_of scenario_table (Str ''S1'') ''forward'' = [[Str ''S1'', Str ''/a/f1.fastq'', Str ''forward'']] \<and>
   rows_of scenario_table (Str ''S1'') ''reverse'' = [[Str ''S1'', Str ''/a/r1.fastq'', Str ''reverse'']] \<and>
   at_col scenario_output ''forward-absolute-filepath'' [Str ''S1'', Str ''/a/f1.fastq'', Str ''/a/r1.fastq'']
     = at_col scenario_table ''absolute-filepath'' [Str ''S1'', Str ''/a/f1.fastq'', Str ''forward''] \<and>
   at_col scenario_output ''reverse-absolute-filepath'' [Str ''S1'', Str ''/a/f1.fastq'', Str ''/a/r1.fastq'']
     = at_col scenario_table ''absolute-filepath'' [Str ''S1'', Str ''/a/r1.fastq'', Str ''reverse'']"
proof -
  have f: "files scenario_world ''manifest.tsv'' = Some scenario_table"
    by (simp add: scenario_world_def)
  have o: "files \<lparr>files = [''manifest.tsv'' \<mapsto> scenario_table, ''manifest_v2.tsv'' \<mapsto> scenario_output],
             stdout = [success_line]\<rparr> ''manifest_v2.tsv'' = Some scenario_output"
    by simp
  have y: "[Str ''S1'', Str ''/a/f1.fastq'', Str ''/a/r1.fastq''] \<in> set (rows scenario_output)"
    by (simp add: scenario_output_def)
  have s: "at_col scenario_output ''sample-id'' [Str ''S1'', Str ''/a/f1.fastq'', Str ''/a/r1.fastq''] = Str ''S1''"
    by (simp add: scenario_output_def at_col_def cell_at_def)
  have rf: "rows_of scenario_table (Str ''S1'') ''forward'' = [[Str ''S1'', Str ''/a/f1.fastq'', Str ''forward'']]"
    by (simp add: scenario_table_def rows_of_def at_col_def cell_at_def)
  have rr: "rows_of scenario_table (Str ''S1'') ''reverse'' = [[Str ''S1'', Str ''/a/r1.fastq'', Str ''reverse'']]"
    by (simp add: scenario_table_def rows_of_def at_col_def cell_at_def)
  from filepaths_come_from_matching_rows [OF f main_scenario [of Before_2_2] o y]
  show ?thesis
    unfolding s rf rr using f main_scenario rf rr by (simp add: scenario_output_def)
qed

text \<open>
  Claim C3. When the input has the required columns and every sample identifier that
  occurs in it has exactly one forward row and exactly one reverse row, the run succeeds
  and the table it writes has as many rows as the input has distinct sample identifiers.
\<close>

theorem paired_input_row_count:
  assumes "files w ''manifest.tsv'' = Some df"
    and "has_required_columns df"
    and "\<forall>s \<in> sample_ids df. count_rows df s ''forward'' = 1 \<and> count_rows df s ''reverse'' = 1"
  shows "fst (main v w) = None \<and>
         (\<exists>out. files (snd (main v w)) ''manifest_v2.tsv'' = Some out \<and>
                length (rows out) = card (sample_ids df))"
  using length_joined_paired [OF assms(3)]
  by (simp add: main_success [OF assms(1,2)] length_written_rows)

theorem paired_input_row_count_witness:
  "files paired_world ''manifest.tsv'' = Some paired_table \<and>
   has_required_columns paired_table \<and>
   sample_ids paired_table = {Str ''S1'', Str ''S2''} \<and>
   count_rows paired_table (Str ''S1'') ''forward'' = 1 \<and>
   count_rows paired_table (Str ''S1'') ''reverse'' = 1 \<and>
   count_rows paired_table (Str ''S2'') ''forward'' = 1 \<and>
   count_rows paired_table (Str ''S2'') ''reverse'' = 1 \<and>
   fst (main Before_2_2 paired_world) = None \<and>
   files (snd (main Before_2_2 paired_world)) ''manifest_v2.tsv'' = Some paired_output \<and>
   length (rows paired_output) = card (sample_ids paired_table) \<and>
   length (rows paired_output) = 2"
proof -
  have f: "files paired_world ''manifest.tsv'' = Some paired_table"
    by (simp add: paired_world_def)
  have q: "has_required_columns paired_table"
    by (simp add: has_required_columns_def required_columns_def paired_table_def)
  have ids: "sample_ids paired_table = {Str ''S1'', Str ''S2''}"
    by (auto simp: sample_ids_def paired_table_def at_col_def cell_at_def)
  have c: "count_rows paired_table (Str ''S1'') ''forward'' = 1"
      "count_rows paired_table (Str ''S1'') ''reverse'' = 1"
      "count_rows paired_table (Str ''S2'') ''forward'' = 1"
      "count_rows paired_table (Str ''S2'') ''reverse'' = 1"
    by (simp_all add: paired_table_def count_defs)
  have h: "\<forall>s \<in> sample_ids paired_table.
             count_rows paired_table s ''forward'' = 1 \<and> count_rows paired_table s ''reverse'' = 1"
    unfolding ids using c by simp
  have n: "length (rows paired_output) = 2"
    by (simp add: paired_output_def)
  from paired_input_row_count [OF f q h, of Before_2_2] f q ids c n show ?thesis
    by (simp add: main_paired)
qed

text \<open>
  Claim C4. The join is the cross product of the matches and nothing is deduplicated.
  For every input with the required columns, so also for one that lists a sample several
  times within a direction, the run succeeds, the rows written for a sample identifier
  number its forward rows times its reverse rows, and a row with given paths is written
  once for every pair of a forward row and a reverse row of that identifier with these
  paths.
\<close>

theorem join_is_cross_product:
  assumes "files w ''manifest.tsv'' = Some df"
    and "has_required_columns df"
  shows "fst (main v w) = None \<and>
         (\<exists>out. files (snd (main v w)) ''manifest_v2.tsv'' = Some out \<and>
            (\<forall>s. length (filter (\<lambda>y. at_col out ''sample-id'' y = s) (rows out))
                   = count_rows df s ''forward'' * count_rows df s ''reverse'') \<and>
            (\<forall>s p q. count_list (rows out) [s, p, q]
                   = length (filter (\<lambda>f. at_col df ''absolute-filepath'' f = p)
                               (rows_of df s ''forward''))
                     * length (filter (\<lambda>r. at_col df ''absolute-filepath'' r = q)
                                 (rows_of df s ''reverse''))))"
proof -
  let ?out = "\<lparr>columns = written_columns v df, rows = written_rows v df\<rparr>"
  have "filter (\<lambda>y. at_col ?out ''sample-id'' y = s) (written_rows v df)
          = filter (\<lambda>y. cell_at y 0 = s) (written_rows v df)" for s
    by (rule filter_cong) (simp_all add: at_col_written)
  then have "length (filter (\<lambda>y. at_col ?out ''sample-id'' y = s) (rows ?out))
               = count_rows df s ''forward'' * count_rows df s ''reverse''" for s
    by (simp add: length_filter_written_rows count_joined_rows)
  moreover have "count_list (rows ?out) [s, p, q]
                   = length (filter (\<lambda>f. at_col df ''absolute-filepath'' f = p)
                               (rows_of df s ''forward''))
                     * length (filter (\<lambda>r. at_col df ''absolute-filepath'' r = q)
                                 (rows_of df s ''reverse''))" for s p q
    by (simp add: count_list_written_rows count_pairs_joined)
  ultimately show ?thesis
    by (simp add: main_success [OF assms])
qed

theorem join_is_cross_product_witness:
  "files interleaved_world ''manifest.tsv'' = Some interleaved_table \<and>
   has_required_columns interleaved_table \<and>
   count_rows interleaved_table (Str ''S1'') ''forward'' = 2 \<and>
   count_rows interleaved_table (Str ''S1'') ''reverse'' = 1 \<and>
   files (snd (main From_2_2 interleaved_world)) ''manifest_v2.tsv'' = Some interleaved_output \<and>
   files (snd (main Before_2_2 interleaved_world)) ''manifest_v2.tsv'' = Some grouped_output \<and>
   length (filter (\<lambda>y. at_col interleaved_output ''sample-id'' y = Str ''S1'')
             (rows interleaved_output)) = 2 \<and>
   length (filter (\<lambda>y. at_col grouped_output ''sample-id'' y = Str ''S1'')
             (rows grouped_output)) = 2 \<and>
   count_list (rows interleaved_output) [Str ''S1'', Str ''/b/f1.fastq'', Str ''/a/r1.fastq''] = 1 \<and>
   count_list (rows grouped_output) [Str ''S1'', Str ''/b/f1.fastq'', Str ''/a/r1.fastq''] = 1"
proof -
  have f: "files interleaved_world ''manifest.tsv'' = Some interleaved_table"
    by (simp add: interleaved_world_def)
  have q: "has_required_columns interleaved_table"
    by (simp add: has_required_columns_def required_columns_def interleaved_table_def)
  have c: "count_rows interleaved_table (Str ''S1'') ''forward'' = 2"
      "count_rows interleaved_table (Str ''S1'') ''reverse'' = 1"
    by (simp_all add: interleaved_table_def count_defs)
  have r: "length (filter (\<lambda>f. at_col interleaved_table ''absolute-filepath'' f = Str ''/b/f1.fastq'')
                    (rows_of interleaved_table (Str ''S1'') ''forward'')) = 1"
      "length (filter (\<lambda>r. at_col interleaved_table ''absolute-filepath'' r = Str ''/a/r1.fastq'')
                    (rows_of interleaved_table (Str ''S1'') ''reverse'')) = 1"
    by (simp_all add: interleaved_table_def count_defs)
  from join_is_cross_product [OF f q, of From_2_2] c r
  have 1: "length (filter (\<lambda>y. at_col interleaved_output ''sample-id'' y = Str ''S1'')
             (rows interleaved_output)) = 2"
    and 2: "count_list (rows interleaved_output) [Str ''S1'', Str ''/b/f1.fastq'', Str ''/a/r1.fastq''] = 1"
    by (simp_all add: main_interleaved_current)
  from join_is_cross_product [OF f q, of Before_2_2] c r
  have 3: "length (filter (\<lambda>y. at_col grouped_output ''sample-id'' y = Str ''S1'')
             (rows grouped_output)) = 2"
    and 4: "count_list (rows grouped_output) [Str ''S1'', Str ''/b/f1.fastq'', Str ''/a/r1.fastq''] = 1"
    by (simp_all add: main_interleaved_legacy)
  from f q c 1 2 3 4 show ?thesis
    by (simp add: main_interleaved_current main_interleaved_legacy)
qed

text \<open>
  Claim C5 says that a sample identifier of the table written has exactly one forward row
  and exactly one reverse row in the input. The script does not check this: on the
  manifest with two forward reads of one sample the identifier is written, twice.
\<close>

theorem output_sample_not_unique_counterexample:
  "files duplicate_world ''manifest.tsv'' = Some duplicate_table \<and>
   fst (main Before_2_2 duplicate_world) = None \<and>
   files (snd (main Before_2_2 duplicate_world)) ''manifest_v2.tsv'' = Some duplicate_output \<and>
   fst (main From_2_2 duplicate_world) = None \<and>
   files (snd (main From_2_2 duplicate_world)) ''manifest_v2.tsv'' = Some duplicate_output \<and>
   [Str ''S1'', Str ''/a/f1.fastq'', Str ''/a/r1.fastq''] \<in> set (rows duplicate_output) \<and>
   at_col duplicate_output ''sample-id'' [Str ''S1'', Str ''/a/f1.fastq'', Str ''/a/r1.fastq''] = Str ''S1'' \<and>
   count_rows duplicate_table (Str ''S1'') ''forward'' = 2 \<and>
   count_rows duplicate_table (Str ''S1'') ''forward'' \<noteq> 1"
proof -
  have f: "files duplicate_world ''manifest.tsv'' = Some duplicate_table"
    by (simp add: duplicate_world_def)
  have y: "[Str ''S1'', Str ''/a/f1.fastq'', Str ''/a/r1.fastq''] \<in> set (rows duplicate_output)"
    by (simp add: duplicate_output_def)
  have s: "at_col duplicate_output ''sample-id'' [Str ''S1'', Str ''/a/f1.fastq'', Str ''/a/r1.fastq''] = Str ''S1''"
    by (simp add: duplicate_output_def at_col_def cell_at_def)
  have c: "count_rows duplicate_table (Str ''S1'') ''forward'' = 2"
    by (simp add: duplicate_table_def count_defs)
  from f y s c show ?thesis
    by (simp add: main_duplicate)
qed

text \<open>
  Claim C5, amended. Every sample identifier of the table written has at least one
  forward row and at least one reverse row in the input.
\<close>

theorem output_sample_has_both_directions:
  assumes "files w ''manifest.tsv'' = Some df"
    and "main v w = (None, w')"
    and "files w' ''manifest_v2.tsv'' = Some out"
    and "y \<in> set (rows out)"
  shows "1 \<le> count_rows df (at_col out ''sample-id'' y) ''forward'' \<and>
         1 \<le> count_rows df (at_col out ''sample-id'' y) ''reverse''"
proof -
  from main_output [OF assms(1-3)]
  have out: "out = \<lparr>columns = written_columns v df, rows = written_rows v df\<rparr>"
    by simp
  with assms(4) have yw: "y \<in> set (written_rows v df)" by simp
  then have "y \<in> set (joined_rows df)" by (simp add: set_written_rows)
  from joined_row_sources [OF this] obtain f r
    where "f \<in> set (rows_of df (cell_at y 0) ''forward'')"
      and "r \<in> set (rows_of df (cell_at y 0) ''reverse'')"
    by blast
  then have "0 < length (rows_of df (cell_at y 0) ''forward'')"
      and "0 < length (rows_of df (cell_at y 0) ''reverse'')"
    by (simp_all only: length_pos_if_in_set)
  then show ?thesis
    by (simp add: count_rows_def out at_col_written [OF yw] Suc_le_eq)
qed

theorem output_sample_has_both_directions_witness:
  "files duplicate_world ''manifest.tsv'' = Some duplicate_table \<and>
   fst (main From_2_2 duplicate_world) = None \<and>
   files (snd (main From_2_2 duplicate_world)) ''manifest_v2.tsv'' = Some duplicate_output \<and>
   [Str ''S1'', Str ''/b/f1.fastq'', Str ''/a/r1.fastq''] \<in> set (rows duplicate_output) \<and>
   1 \<le> count_rows duplicate_table (Str ''S1'') ''forward'' \<and>
   1 \<le> count_rows duplicate_table (Str ''S1'') ''reverse''"
proof -
  have f: "files duplicate_world ''manifest.tsv'' = Some duplicate_table"
    by (simp add: duplicate_world_def)
  have o: "files \<lparr>files = [''manifest.tsv'' \<mapsto> duplicate_table, ''manifest_v2.tsv'' \<mapsto> duplicate_output],
             stdout = [success_line]\<rparr> ''manifest_v2.tsv'' = Some duplicate_output"
    by simp
  have y: "[Str ''S1'', Str ''/b/f1.fastq'', Str ''/a/r1.fastq''] \<in> set (rows duplicate_output)"
    by (simp add: duplicate_output_def)
  have s: "at_col duplicate_output ''sample-id'' [Str ''S1'', Str ''/b/f1.fastq'', Str ''/a/r1.fastq''] = Str ''S1''"
    by (simp add: duplicate_output_def at_col_def cell_at_def)
  from output_sample_has_both_directions [OF f main_duplicate [of From_2_2] o y]
  show ?thesis
    unfolding s using f y by (simp add: main_duplicate)
qed

text \<open>
  Claim C6. When the input has the three required columns and no sample identifier has
  rows of both directions, which includes an input without any row, the run succeeds: it
  writes a table without rows whose header has the three names \<^verbatim>\<open>sample-id\<close>,
  \<^verbatim>\<open>forward-absolute-filepath\<close> and \<^verbatim>\<open>reverse-absolute-filepath\<close>, and prints the
  success message.
\<close>

theorem empty_join_header_only:
  assumes "files w ''manifest.tsv'' = Some df"
    and "has_required_columns df"
    and "\<forall>s \<in> sample_ids df. count_rows df s ''forward'' = 0 \<or> count_rows df s ''reverse'' = 0"
  shows "\<exists>out. main v w =
                 (None, w\<lparr>files := (files w)(''manifest_v2.tsv'' \<mapsto> out),
                          stdout := stdout w @ [''manifest_v2.tsv created successfully'']\<rparr>) \<and>
               rows out = [] \<and>
               set (columns out)
                 = {''sample-id'', ''forward-absolute-filepath'', ''reverse-absolute-filepath''} \<and>
               length (columns out) = 3"
proof (intro exI conjI)
  show "main v w =
          (None, w\<lparr>files := (files w)(''manifest_v2.tsv'' \<mapsto>
                      \<lparr>columns = written_columns v df, rows = []\<rparr>),
                   stdout := stdout w @ [''manifest_v2.tsv created successfully'']\<rparr>)"
    using main_success [OF assms(1,2), of v] written_rows_empty [OF assms(3), of v] by simp
qed (simp_all add: written_columns_set)

theorem empty_join_header_only_witness:
  "files one_sided_world ''manifest.tsv'' = Some one_sided_table \<and>
   has_required_columns one_sided_table \<and>
   sample_ids one_sided_table = {Str ''S1'', Str ''S2''} \<and>
   count_rows one_sided_table (Str ''S1'') ''reverse'' = 0 \<and>
   count_rows one_sided_table (Str ''S2'') ''forward'' = 0 \<and>
   main Before_2_2 one_sided_world =
     (None, \<lparr>files = [''manifest.tsv'' \<mapsto> one_sided_table, ''manifest_v2.tsv'' \<mapsto> header_only_output],
             stdout = [''manifest_v2.tsv created successfully'']\<rparr>) \<and>
   files header_only_world ''manifest.tsv'' = Some header_only_table \<and>
   has_required_columns header_only_table \<and>
   sample_ids header_only_table = {} \<and>
   main From_2_2 header_only_world =
     (None, \<lparr>files = [''manifest.tsv'' \<mapsto> header_only_table, ''manifest_v2.tsv'' \<mapsto> header_only_output],
             stdout = [''manifest_v2.tsv created successfully'']\<rparr>) \<and>
   main Before_2_2 header_only_world =
     (None, \<lparr>files = [''manifest.tsv'' \<mapsto> header_only_table,
                       ''manifest_v2.tsv'' \<mapsto> legacy_header_only_output],
             stdout = [''manifest_v2.tsv created successfully'']\<rparr>) \<and>
   rows header_only_output = [] \<and> rows legacy_header_only_output = [] \<and>
   set (columns header_only_output) = set (columns legacy_header_only_output)"
proof -
  have f1: "files one_sided_world ''manifest.tsv'' = Some one_sided_table"
    by (simp add: one_sided_world_def)
  have q1: "has_required_columns one_sided_table"
    by (simp add: has_required_columns_def required_columns_def one_sided_table_def)
  have i1: "sample_ids one_sided_table = {Str ''S1'', Str ''S2''}"
    by (auto simp: sample_ids_def one_sided_table_def at_col_def cell_at_def)
  have c1: "count_rows one_sided_table (Str ''S1'') ''reverse'' = 0"
      "count_rows one_sided_table (Str ''S2'') ''forward'' = 0"
    by (simp_all add: one_sided_table_def count_defs)
  have h1: "\<forall>s \<in> sample_ids one_sided_table.
              count_rows one_sided_table s ''forward'' = 0 \<or> count_rows one_sided_table s ''reverse'' = 0"
    unfolding i1 using c1 by simp
  have f2: "files header_only_world ''manifest.tsv'' = Some header_only_table"
    by (simp add: header_only_world_def)
  have q2: "has_required_columns header_only_table"
    by (simp add: has_required_columns_def required_columns_def header_only_table_def)
  have i2: "sample_ids header_only_table = {}"
    by (simp add: sample_ids_def header_only_table_def)
  have h2: "\<forall>s \<in> sample_ids header_only_table.
              count_rows header_only_table s ''forward'' = 0 \<or> count_rows header_only_table s ''reverse'' = 0"
    unfolding i2 by simp
  have e: "rows header_only_output = []" "rows legacy_header_only_output = []"
      "set (columns header_only_output) = set (columns legacy_header_only_output)"
    by (auto simp: header_only_output_def legacy_header_only_output_def)
  from empty_join_header_only [OF f1 q1 h1, of Before_2_2]
    empty_join_header_only [OF f2 q2 h2, of From_2_2]
    empty_join_header_only [OF f2 q2 h2, of Before_2_2]
    f1 q1 i1 c1 f2 q2 i2 e
  show ?thesis
    by (simp add: main_one_sided main_header_only_current main_header_only_legacy success_line_def)
qed

text \<open>
  Claim C7. When the input file does not exist or a required column is absent, the run
  aborts with an error and leaves the world as it was, so no file is written. Every run
  that aborts leaves the world as it was, and the output file changes only when the file
  was read and the join was computed.
\<close>

theorem failure_writes_nothing:
  "((files w ''manifest.tsv'' = None \<or>
     (\<exists>df. files w ''manifest.tsv'' = Some df \<and> \<not> has_required_columns df))
      \<longrightarrow> (\<exists>e. main v w = (Some e, w))) \<and>
   (\<forall>e. fst (main v w) = Some e \<longrightarrow> snd (main v w) = w) \<and>
   (files (snd (main v w)) ''manifest_v2.tsv'' \<noteq> files w ''manifest_v2.tsv''
      \<longrightarrow> (\<exists>df m. read_csv w ''manifest.tsv'' = Inr df \<and> manifest_v2 v df = Inr m))"
  using main_failure [of w v] main_error_unchanged [of v w] main_write_needs_join [of v w]
  by blast

theorem failure_writes_nothing_witness:
  "files absent_world ''manifest.tsv'' = None \<and>
   main From_2_2 absent_world = (Some (FileNotFoundError ''manifest.tsv''), absent_world) \<and>
   files no_direction_world ''manifest.tsv'' = Some no_direction_table \<and>
   \<not> has_required_columns no_direction_table \<and>
   main From_2_2 no_direction_world = (Some (KeyError [''direction'']), no_direction_world) \<and>
   snd (main From_2_2 no_direction_world) = no_direction_world \<and>
   files (snd (main From_2_2 no_direction_world)) ''manifest_v2.tsv'' = None \<and>
   files (snd (main From_2_2 scenario_world)) ''manifest_v2.tsv'' \<noteq> files scenario_world ''manifest_v2.tsv'' \<and>
   read_csv scenario_world ''manifest.tsv'' = Inr scenario_table \<and>
   manifest_v2 From_2_2 scenario_table = Inr scenario_output"
proof -
  have a: "files absent_world ''manifest.tsv'' = None"
    by (simp add: absent_world_def)
  have ma: "fst (main From_2_2 absent_world) = Some (FileNotFoundError ''manifest.tsv'')"
    by (simp add: absent_world_def main_def read_csv_def)
  have n: "files no_direction_world ''manifest.tsv'' = Some no_direction_table"
    by (simp add: no_direction_world_def)
  have q: "\<not> has_required_columns no_direction_table"
    by (simp add: has_required_columns_def required_columns_def no_direction_table_def)
  have mn: "fst (main From_2_2 no_direction_world) = Some (KeyError [''direction''])"
    by (simp add: no_direction_world_def no_direction_table_def eval_defs)
  have e: "files no_direction_world ''manifest_v2.tsv'' = None"
    by (simp add: no_direction_world_def)
  from failure_writes_nothing [of absent_world From_2_2] a
  have "\<exists>e. main From_2_2 absent_world = (Some e, absent_world)" by blast
  with ma have 1: "main From_2_2 absent_world = (Some (FileNotFoundError ''manifest.tsv''), absent_world)"
    by auto
  from failure_writes_nothing [of no_direction_world From_2_2] n q
  have "\<exists>e. main From_2_2 no_direction_world = (Some e, no_direction_world)" by blast
  with mn have 2: "main From_2_2 no_direction_world = (Some (KeyError [''direction'']), no_direction_world)"
    by auto
  from failure_writes_nothing [of no_direction_world From_2_2] mn
  have 3: "snd (main From_2_2 no_direction_world) = no_direction_world" by blast
  have c: "files (snd (main From_2_2 scenario_world)) ''manifest_v2.tsv'' \<noteq> files scenario_world ''manifest_v2.tsv''"
    by (simp add: main_scenario) (simp add: scenario_world_def)
  have r: "read_csv scenario_world ''manifest.tsv'' = Inr scenario_table"
    by (simp add: read_csv_def scenario_world_def) (simp add: scenario_table_def)
  from failure_writes_nothing [of scenario_world From_2_2] c
  obtain df m where dm: "read_csv scenario_world ''manifest.tsv'' = Inr df" "manifest_v2 From_2_2 df = Inr m"
    by blast
  from dm(1) r have "df = scenario_table" by simp
  moreover have "manifest_v2 From_2_2 scenario_table = Inr scenario_output"
    by (simp add: scenario_table_def scenario_output_def eval_defs)
  ultimately have j: "manifest_v2 From_2_2 scenario_table = Inr scenario_output" and "m = scenario_output"
    using dm(2) by simp_all
  from a 1 n q 2 3 e c r j show ?thesis by simp
qed

text \<open>
  Claim C8 says that the header of every successful run is \<^verbatim>\<open>sample-id\<close>,
  \<^verbatim>\<open>forward-absolute-filepath\<close>, \<^verbatim>\<open>reverse-absolute-filepath\<close> in this order. With a
  library before version 2.2 and an input without a forward row, here the header without
  rows, the run succeeds and writes the sample identifier in the second place.
\<close>

theorem output_header_order_counterexample:
  "files header_only_world ''manifest.tsv'' = Some header_only_table \<and>
   fst (main Before_2_2 header_only_world) = None \<and>
   files (snd (main Before_2_2 header_only_world)) ''manifest_v2.tsv''
     = Some legacy_header_only_output \<and>
   columns legacy_header_only_output
     = [''forward-absolute-filepath'', ''sample-id'', ''reverse-absolute-filepath''] \<and>
   columns legacy_header_only_output
     \<noteq> [''sample-id'', ''forward-absolute-filepath'', ''reverse-absolute-filepath'']"
proof -
  have f: "files header_only_world ''manifest.tsv'' = Some header_only_table"
    by (simp add: header_only_world_def)
  have c: "columns legacy_header_only_output
     = [''forward-absolute-filepath'', ''sample-id'', ''reverse-absolute-filepath'']"
    by (simp add: legacy_header_only_output_def)
  from f c show ?thesis
    by (simp add: main_header_only_legacy)
qed

text \<open>
  Claim C8, amended. After a successful run the output file holds, under the tab
  separator, a table whose header names exactly the three columns \<^verbatim>\<open>sample-id\<close>,
  \<^verbatim>\<open>forward-absolute-filepath\<close> and \<^verbatim>\<open>reverse-absolute-filepath\<close>, each once, and whose
  rows have these three cells and no cell for a row label. The names stand in this order
  when the library is of version 2.2 or later or the input has a forward row; otherwise
  the order is \<^verbatim>\<open>forward-absolute-filepath\<close>, \<^verbatim>\<open>sample-id\<close>,
  \<^verbatim>\<open>reverse-absolute-filepath\<close>.
\<close>

theorem output_header_names:
  assumes "files w ''manifest.tsv'' = Some df"
    and "fst (main v w) = None"
  shows "\<exists>out. files (snd (main v w)) ''manifest_v2.tsv'' = Some out \<and>
           set (columns out)
             = {''sample-id'', ''forward-absolute-filepath'', ''reverse-absolute-filepath''} \<and>
           length (columns out) = 3 \<and>
           (\<forall>y \<in> set (rows out). length y = 3) \<and>
           (v = From_2_2 \<or> has_forward_row df \<longrightarrow>
              columns out
                = [''sample-id'', ''forward-absolute-filepath'', ''reverse-absolute-filepath'']) \<and>
           (v = Before_2_2 \<and> \<not> has_forward_row df \<longrightarrow>
              columns out
                = [''forward-absolute-filepath'', ''sample-id'', ''reverse-absolute-filepath''])"
proof -
  from main_None_D [OF assms(2)] assms(1) have req: "has_required_columns df"
    by simp
  have "\<forall>y \<in> set (written_rows v df). length y = 3"
    by (auto simp: set_written_rows in_joined_rows)
  moreover have "v = From_2_2 \<or> has_forward_row df \<longrightarrow> written_columns v df = wide_columns"
    by (auto simp: written_columns_cases)
  moreover have "v = Before_2_2 \<and> \<not> has_forward_row df \<longrightarrow> written_columns v df = legacy_columns"
    by (simp add: written_columns_cases)
  ultimately show ?thesis
    using written_columns_set [of v df]
    by (simp add: main_success [OF assms(1) req] wide_columns_def legacy_columns_def)
qed

theorem output_header_names_witness:
  "files scenario_world ''manifest.tsv'' = Some scenario_table \<and>
   has_forward_row scenario_table \<and>
   fst (main Before_2_2 scenario_world) = None \<and>
   files (snd (main Before_2_2 scenario_world)) ''manifest_v2.tsv'' = Some scenario_output \<and>
   columns scenario_output
     = [''sample-id'', ''forward-absolute-filepath'', ''reverse-absolute-filepath''] \<and>
   map length (rows scenario_output) = [3] \<and>
   files header_only_world ''manifest.tsv'' = Some header_only_table \<and>
   \<not> has_forward_row header_only_table \<and>
   fst (main From_2_2 header_only_world) = None \<and>
   files (snd (main From_2_2 header_only_world)) ''manifest_v2.tsv'' = Some header_only_output \<and>
   columns header_only_output
     = [''sample-id'', ''forward-absolute-filepath'', ''reverse-absolute-filepath''] \<and>
   fst (main Before_2_2 header_only_world) = None \<and>
   files (snd (main Before_2_2 header_only_world)) ''manifest_v2.tsv''
     = Some legacy_header_only_output \<and>
   columns legacy_header_only_output
     = [''forward-absolute-filepath'', ''sample-id'', ''reverse-absolute-filepath'']"
proof -
  have f1: "files scenario_world ''manifest.tsv'' = Some scenario_table"
    by (simp add: scenario_world_def)
  have h1: "has_forward_row scenario_table"
    by (simp add: has_forward_row_def scenario_table_def at_col_def cell_at_def)
  have n1: "fst (main Before_2_2 scenario_world) = None"
    by (simp add: main_scenario)
  have f2: "files header_only_world ''manifest.tsv'' = Some header_only_table"
    by (simp add: header_only_world_def)
  have h2: "\<not> has_forward_row header_only_table"
    by (simp add: has_forward_row_def header_only_table_def)
  have n2: "fst (main From_2_2 header_only_world) = None"
    by (simp add: main_header_only_current)
  have n3: "fst (main Before_2_2 header_only_world) = None"
    by (simp add: main_header_only_legacy)
  from output_header_names [OF f1 n1] output_header_names [OF f2 n2] output_header_names [OF f2 n3]
    f1 h1 n1 f2 h2 n2 n3
  show ?thesis
    by (simp add: main_scenario main_header_only_current main_header_only_legacy
          scenario_output_def header_only_output_def legacy_header_only_output_def)
qed

text \<open>
  Claim C9. Two inputs that have the same three columns \<^verbatim>\<open>sample-id\<close>,
  \<^verbatim>\<open>direction\<close> and \<^verbatim>\<open>absolute-filepath\<close>, whatever other columns they have and
  wherever the columns stand, both succeed and write the same table.
\<close>

theorem extra_columns_ignored:
  assumes "files w1 ''manifest.tsv'' = Some df1"
    and "files w2 ''manifest.tsv'' = Some df2"
    and "has_required_columns df1"
    and "\<forall>c \<in> set required_columns. getitem_col df1 c = getitem_col df2 c"
  shows "fst (main v w1) = None \<and> fst (main v w2) = None \<and>
         files (snd (main v w1)) ''manifest_v2.tsv'' = files (snd (main v w2)) ''manifest_v2.tsv''"
proof -
  have in1: "c \<in> set (columns df1)" if "c \<in> set required_columns" for c
    using that assms(3) by (auto simp: has_required_columns_def)
  have in2: "c \<in> set (columns df2)" if c: "c \<in> set required_columns" for c
  proof (rule ccontr)
    assume "c \<notin> set (columns df2)"
    then have "getitem_col df2 c = Inl (KeyError [c])" by (rule getitem_col_absent)
    moreover have "getitem_col df1 c = Inr (map (at_col df1 c) (rows df1))"
      using in1 [OF c] by (rule getitem_col_present)
    ultimately show False using assms(4) c by simp
  qed
  then have req2: "has_required_columns df2"
    by (auto simp: has_required_columns_def)
  have col: "map (at_col df1 c) (rows df1) = map (at_col df2 c) (rows df2)"
    if c: "c \<in> set required_columns" for c
    using assms(4) c getitem_col_present [OF in1 [OF c]] getitem_col_present [OF in2 [OF c]]
    by simp
  have sel: "selected df1 d = selected df2 d" for d
    by (rule selected_cong) (simp_all add: col required_columns_def)
  have "written_columns v df1 = written_columns v df2" and "written_rows v df1 = written_rows v df2"
    by (rule written_cong; rule sel)+
  then show ?thesis
    by (simp add: main_success [OF assms(1,3)] main_success [OF assms(2) req2])
qed

theorem extra_columns_ignored_witness:
  "files scenario_world ''manifest.tsv'' = Some scenario_table \<and>
   files annotated_world ''manifest.tsv'' = Some annotated_table \<and>
   has_required_columns scenario_table \<and>
   getitem_col scenario_table ''sample-id'' = getitem_col annotated_table ''sample-id'' \<and>
   getitem_col scenario_table ''direction'' = getitem_col annotated_table ''direction'' \<and>
   getitem_col scenario_table ''absolute-filepath'' = getitem_col annotated_table ''absolute-filepath'' \<and>
   columns scenario_table \<noteq> columns annotated_table \<and>
   fst (main From_2_2 annotated_world) = None \<and>
   files (snd (main From_2_2 annotated_world)) ''manifest_v2.tsv'' = Some scenario_output \<and>
   files (snd (main From_2_2 scenario_world)) ''manifest_v2.tsv'' = Some scenario_output"
proof -
  have f1: "files scenario_world ''manifest.tsv'' = Some scenario_table"
    by (simp add: scenario_world_def)
  have f2: "files annotated_world ''manifest.tsv'' = Some annotated_table"
    by (simp add: annotated_world_def)
  have q: "has_required_columns scenario_table"
    by (simp add: has_required_columns_def required_columns_def scenario_table_def)
  have g: "getitem_col scenario_table ''sample-id'' = getitem_col annotated_table ''sample-id''"
      "getitem_col scenario_table ''direction'' = getitem_col annotated_table ''direction''"
      "getitem_col scenario_table ''absolute-filepath'' = getitem_col annotated_table ''absolute-filepath''"
    by (simp_all add: scenario_table_def annotated_table_def getitem_col_def cell_at_def)
  have h: "\<forall>c \<in> set required_columns. getitem_col scenario_table c = getitem_col annotated_table c"
    using g by (simp add: required_columns_def)
  have d: "columns scenario_table \<noteq> columns annotated_table"
    by (simp add: scenario_table_def annotated_table_def)
  from extra_columns_ignored [OF f1 f2 q h, of From_2_2] f1 f2 q g d show ?thesis
    by (simp add: main_scenario)
qed

text \<open>
  Claim C10. A run changes no file other than \<^verbatim>\<open>manifest_v2.tsv\<close>; in particular
  \<^verbatim>\<open>manifest.tsv\<close> is as it was.
\<close>

theorem only_output_file_changes:
  "(\<forall>p. p \<noteq> ''manifest_v2.tsv'' \<longrightarrow> files (snd (main v w)) p = files w p) \<and>
   files (snd (main v w)) ''manifest.tsv'' = files w ''manifest.tsv''"
  by (simp add: main_frame)

theorem only_output_file_changes_witness:
  "files (snd (main From_2_2 scenario_world)) ''manifest.tsv'' = Some scenario_table \<and>
   files scenario_world ''manifest.tsv'' = Some scenario_table \<and>
   files (snd (main From_2_2 scenario_world)) ''notes.txt'' = None \<and>
   files scenario_world ''manifest_v2.tsv'' = None \<and>
   files (snd (main From_2_2 scenario_world)) ''manifest_v2.tsv'' = Some scenario_output"
proof -
  have f: "files scenario_world ''manifest.tsv'' = Some scenario_table"
      "files scenario_world ''notes.txt'' = None"
      "files scenario_world ''manifest_v2.tsv'' = None"
    by (simp_all add: scenario_world_def)
  from only_output_file_changes [of From_2_2 scenario_world]
  have "files (snd (main From_2_2 scenario_world)) ''manifest.tsv'' = files scenario_world ''manifest.tsv''"
    and "files (snd (main From_2_2 scenario_world)) ''notes.txt'' = files scenario_world ''notes.txt''"
    by simp_all
  with f show ?thesis
    by (simp add: main_scenario)
qed

end
